theory Spec2Isabelle
  imports Complex_Main "HOL-Library.Sublist" "HOL-Library.Multiset"
    "HOL-Library.Char_ord" "HOL-Library.List_Lexorder"
begin

section \<open>Values, errors and number formatting\<close>

text \<open>
  The agents read rows of four tables (claims, providers, patients, fraud_flags) through
  pandas, render them into prompt text with Python f-strings, and send the text to a chat
  completion backend. Python exceptions are values of \<open>error\<close>; a function that may
  raise returns \<open>error + 'a\<close>.

  \<^item> \<open>TypeError\<close>: subscripting \<open>None\<close> (\<open>fraud_flags['rules_triggered']\<close> when no
    flag row exists, \<open>claim['claim_id']\<close> when no claim row exists).
  \<^item> \<open>KeyError\<close>: \<open>investigation['analysis']\<close> on a result dict that has no such key.
  \<^item> \<open>IndexError\<close>: \<open>response.choices[0]\<close> on an empty list of choices.
  \<^item> \<open>BackendError\<close>: whatever \<open>client.chat.completions.create\<close> raises.
  \<^item> \<open>DatabaseError\<close>: what \<open>pd.read_sql_query\<close> raises when the engine rejects
    the query text, as it does a text that a key with a single quote has made malformed.
\<close>

datatype error = TypeError | KeyError | IndexError | BackendError | DatabaseError

text \<open>Values stored in the dicts the agents return.\<close>

datatype pyval = PNone | PStr string | PNum rat

text \<open>
  Numbers that the templates format with \<open>.2f\<close> are modelled by their exact rational
  value (every finite float is one; NaN and infinities are outside the model). Python
  rounds the exact value to two decimals, ties to even, keeps the sign of the input and,
  with the \<open>,\<close> option, groups the integer digits in threes.
\<close>

definition round_half_even :: "rat \<Rightarrow> int" where
  "round_half_even y =
     (let f = \<lfloor>y\<rfloor>; d = y - of_int f
      in if d < 1 / 2 then f else if 1 / 2 < d then f + 1 else if even f then f else f + 1)"

definition digit :: "nat \<Rightarrow> char" where
  "digit d = ''0123456789'' ! (d mod 10)"

fun digits :: "nat \<Rightarrow> string" where
  "digits n = (if n < 10 then [digit n] else digits (n div 10) @ [digit n])"

declare digits.simps [simp del]

text \<open>\<open>str(i)\<close> for a Python int.\<close>

definition str_int :: "int \<Rightarrow> string" where
  "str_int i = (if i < 0 then ''-'' @ digits (nat (- i)) else digits (nat i))"

text \<open>Grouping works from the least significant digit: the argument is reversed.\<close>

fun group3 :: "string \<Rightarrow> string" where
  "group3 (a # b # c # d # rest) = a # b # c # CHR '','' # group3 (d # rest)"
| "group3 xs = xs"

definition thousands :: "string \<Rightarrow> string" where
  "thousands ds = rev (group3 (rev ds))"

text \<open>\<open>format(x, ',.2f')\<close> when \<open>grouping\<close>, \<open>format(x, '.2f')\<close> otherwise.\<close>

definition format_2f :: "bool \<Rightarrow> rat \<Rightarrow> string" where
  "format_2f grouping x =
     (let cents = nat (round_half_even (\<bar>x\<bar> * 100));
          ip = digits (cents div 100)
      in (if x < 0 then ''-'' else '''')
         @ (if grouping then thousands ip else ip)
         @ ''.'' @ [digit (cents div 10), digit cents])"

text \<open>The idiom \<open>${amount:,.2f}\<close> of both templates.\<close>

definition usd :: "rat \<Rightarrow> string" where
  "usd x = ''$'' @ format_2f True x"

text \<open>The idiom \<open>{fraud_score}/100\<close> of both templates.\<close>

definition out_of_100 :: "int \<Rightarrow> string" where
  "out_of_100 s = str_int s @ ''/100''"

section \<open>The data source\<close>

text \<open>
  A table is the list of its rows in scan order. Identifiers, codes, dates and
  explanations are text; amounts and the deviation score are numbers; claim counts,
  fraud counts, flags and the fraud score are integers, which an f-string renders without
  a decimal point. NULL entries are outside the model. \<open>amount_zscore\<close> is \<open>None\<close>
  when the row dict has no such key (\<open>claim.get('amount_zscore', 0)\<close>).
\<close>

record claim_row =
  claim_id :: string
  claim_amount :: rat
  claim_date :: string
  provider_id :: string
  patient_id :: string
  provider_specialty :: string
  procedure_code :: string
  diagnosis_code :: string
  status :: string
  is_fraud :: int
  amount_zscore :: "rat option"

record provider_row =
  prov_provider_id :: string
  prov_total_claims :: int
  avg_claim_amount :: rat
  total_billed :: rat
  prov_fraud_claims :: int

record patient_row =
  pat_patient_id :: string
  pat_total_claims :: int
  total_spent :: rat
  pat_fraud_claims :: int

record flag_row =
  flag_claim_id :: string
  fraud_detected :: int
  fraud_score :: int
  rules_triggered :: string
  explanation :: string

text \<open>
  The data source is the four tables and the part of the engine's behaviour that the
  tables do not determine:
  \<^item> the order in which rows with equal sort keys come out of an \<open>ORDER BY\<close>, which SQL
    leaves to the engine and which depends on the indexes the schema declares (rows come
    out by ascending \<open>flags_tie\<close>, respectively \<open>claims_tie\<close>, and in scan order
    where that is equal too);
  \<^item> the answer to a query text that is no longer the key lookup, because the key spliced
    into it contains a single quote or a NUL: an exception or whatever rows the statement
    now selects (\<open>altered_claims\<close> and its siblings, one per result shape, each a function
    of the text submitted).
\<close>

record db =
  claims :: "claim_row list"
  providers :: "provider_row list"
  patients :: "patient_row list"
  fraud_flags :: "flag_row list"
  claims_tie :: "claim_row \<Rightarrow> nat"
  flags_tie :: "flag_row \<Rightarrow> nat"
  altered_claims :: "string \<Rightarrow> error + claim_row list"
  altered_providers :: "string \<Rightarrow> error + provider_row list"
  altered_patients :: "string \<Rightarrow> error + patient_row list"
  altered_fraud_flags :: "string \<Rightarrow> error + flag_row list"
  altered_recent :: "string \<Rightarrow> error + (rat \<times> string \<times> string \<times> int) list"

subsection \<open>Query texts\<close>

text \<open>Each lookup builds its SQL with an f-string that puts the key between quotes.\<close>

definition quote :: char where
  "quote = CHR 0x27"

definition claim_query :: "string \<Rightarrow> string" where
  "claim_query claim_id' = ''SELECT * FROM claims WHERE claim_id = '' @ [quote] @ claim_id' @ [quote]"

definition provider_query :: "string \<Rightarrow> string" where
  "provider_query provider_id' =
     ''SELECT * FROM providers WHERE provider_id = '' @ [quote] @ provider_id' @ [quote]"

definition patient_query :: "string \<Rightarrow> string" where
  "patient_query patient_id' =
     ''SELECT * FROM patients WHERE patient_id = '' @ [quote] @ patient_id' @ [quote]"

definition fraud_flags_query :: "string \<Rightarrow> string" where
  "fraud_flags_query claim_id' =
     ''SELECT * FROM fraud_flags WHERE claim_id = '' @ [quote] @ claim_id' @ [quote]"

definition provider_recent_query :: "string \<Rightarrow> string" where
  "provider_recent_query provider_id' =
     ''\<newline>            SELECT claim_amount, claim_date, status, is_fraud\<newline>            FROM claims\<newline>            WHERE provider_id = ''
     @ [quote] @ provider_id' @ [quote]
     @ ''\<newline>            ORDER BY claim_date DESC\<newline>            LIMIT 10\<newline>        ''"

definition patient_recent_query :: "string \<Rightarrow> string" where
  "patient_recent_query patient_id' =
     ''\<newline>            SELECT claim_amount, claim_date, provider_specialty, is_fraud\<newline>            FROM claims\<newline>            WHERE patient_id = ''
     @ [quote] @ patient_id' @ [quote]
     @ ''\<newline>            ORDER BY claim_date DESC\<newline>            LIMIT 10\<newline>        ''"

subsection \<open>Query results\<close>

text \<open>
  \<open>pd.read_sql_query(query, conn)\<close> for a lookup by key. With a key free of quotes the
  text is the equality lookup it looks like, and the engine returns the rows whose column
  equals the key, in scan order. Otherwise the engine answers the text it was given.
\<close>

definition plain_key :: "string \<Rightarrow> bool" where
  "plain_key k = (\<forall>c \<in> set k. c \<noteq> quote \<and> c \<noteq> CHR 0x00)"

definition select_where ::
  "('r \<Rightarrow> string) \<Rightarrow> string \<Rightarrow> 'r list \<Rightarrow> (string \<Rightarrow> error + 'r list) \<Rightarrow> string
     \<Rightarrow> error + 'r list" where
  "select_where col k tbl altered query =
     (if plain_key k then Inr (filter (\<lambda>r. col r = k) tbl) else altered query)"

text \<open>
  \<open>ORDER BY col DESC\<close>: descending \<open>col\<close>; rows with equal \<open>col\<close> in the order the
  engine gives them, ascending \<open>tie\<close>. \<open>LIMIT n\<close> keeps the first \<open>n\<close> rows, and
  every row when \<open>n\<close> is negative.
\<close>

definition order_by_desc ::
  "('r \<Rightarrow> 'k::linorder) \<Rightarrow> ('r \<Rightarrow> 't::linorder) \<Rightarrow> 'r list \<Rightarrow> 'r list" where
  "order_by_desc col tie rows = rev (sort_key col (rev (sort_key tie rows)))"

definition limit_rows :: "int \<Rightarrow> 'r list \<Rightarrow> 'r list" where
  "limit_rows n rows = (if n < 0 then rows else take (nat n) rows)"

text \<open>\<open>result.iloc[0].to_dict()\<close> behind the guard \<open>len(result) == 0\<close>.\<close>

definition first_row :: "'r list \<Rightarrow> 'r option" where
  "first_row rows = (case rows of [] \<Rightarrow> None | r # _ \<Rightarrow> Some r)"

definition get_claim_details :: "db \<Rightarrow> string \<Rightarrow> error + claim_row option" where
  "get_claim_details d claim_id' =
     map_sum id first_row
       (select_where claim_id claim_id' (claims d) (altered_claims d) (claim_query claim_id'))"

definition get_fraud_flags :: "db \<Rightarrow> string \<Rightarrow> error + flag_row option" where
  "get_fraud_flags d claim_id' =
     map_sum id first_row
       (select_where flag_claim_id claim_id' (fraud_flags d) (altered_fraud_flags d)
          (fraud_flags_query claim_id'))"

text \<open>\<open>ExplanationAgent._get_fraud_info\<close> is the same lookup.\<close>

definition get_fraud_info :: "db \<Rightarrow> string \<Rightarrow> error + flag_row option" where
  "get_fraud_info d claim_id' =
     map_sum id first_row
       (select_where flag_claim_id claim_id' (fraud_flags d) (altered_fraud_flags d)
          (fraud_flags_query claim_id'))"

text \<open>
  The ten most recent claims of a provider or patient: the second query of each context.
  \<open>col\<close> is the column the key is compared with, \<open>third\<close> the third column selected.
\<close>

definition recent_claims ::
  "db \<Rightarrow> (claim_row \<Rightarrow> string) \<Rightarrow> (claim_row \<Rightarrow> string) \<Rightarrow> string \<Rightarrow> string
     \<Rightarrow> error + (rat \<times> string \<times> string \<times> int) list" where
  "recent_claims d col third k query =
     (if plain_key k
      then Inr (map (\<lambda>c. (claim_amount c, claim_date c, third c, is_fraud c))
                  (limit_rows 10
                     (order_by_desc claim_date (claims_tie d) (filter (\<lambda>c. col c = k) (claims d)))))
      else altered_recent d query)"

text \<open>
  A context is the dict \<open>{'summary': ..., 'recent_claims': ...}\<close>; the summary is
  \<open>None\<close> for the empty dict \<open>{}\<close> that stands for a missing provider or patient.
\<close>

record provider_context =
  prov_summary :: "provider_row option"
  prov_recent_claims :: "(rat \<times> string \<times> string \<times> int) list"

record patient_context =
  pat_summary :: "patient_row option"
  pat_recent_claims :: "(rat \<times> string \<times> string \<times> int) list"

definition get_provider_context :: "db \<Rightarrow> string \<Rightarrow> error + provider_context" where
  "get_provider_context d provider_id' =
     (case select_where prov_provider_id provider_id' (providers d) (altered_providers d)
             (provider_query provider_id') of
        Inl e \<Rightarrow> Inl e
      | Inr provider \<Rightarrow>
          (case recent_claims d provider_id status provider_id'
                  (provider_recent_query provider_id') of
             Inl e \<Rightarrow> Inl e
           | Inr recent \<Rightarrow>
               Inr \<lparr>prov_summary = first_row provider, prov_recent_claims = recent\<rparr>))"

definition get_patient_context :: "db \<Rightarrow> string \<Rightarrow> error + patient_context" where
  "get_patient_context d patient_id' =
     (case select_where pat_patient_id patient_id' (patients d) (altered_patients d)
             (patient_query patient_id') of
        Inl e \<Rightarrow> Inl e
      | Inr patient \<Rightarrow>
          (case recent_claims d patient_id provider_specialty patient_id'
                  (patient_recent_query patient_id') of
             Inl e \<Rightarrow> Inl e
           | Inr recent \<Rightarrow>
               Inr \<lparr>pat_summary = first_row patient, pat_recent_claims = recent\<rparr>))"

section \<open>Prompt templates\<close>

subsection \<open>\<open>InvestigationAgent._build_investigation_prompt\<close>\<close>

text \<open>
  The f-string is cut at its blank lines into sections; their concatenation is the
  source's text, character for character.
\<close>

definition claim_details_section :: "claim_row \<Rightarrow> string" where
  "claim_details_section claim =
     ''CLAIM DETAILS:\<newline>- Claim ID: '' @ claim_id claim
     @ ''\<newline>- Amount: '' @ usd (claim_amount claim)
     @ ''\<newline>- Date: '' @ claim_date claim
     @ ''\<newline>- Provider: '' @ provider_id claim @ '' ('' @ provider_specialty claim @ '')''
     @ ''\<newline>- Procedure: '' @ procedure_code claim
     @ ''\<newline>- Diagnosis: '' @ diagnosis_code claim
     @ ''\<newline>- Status: '' @ status claim"

definition fraud_flags_section :: "flag_row \<Rightarrow> string" where
  "fraud_flags_section flags =
     ''FRAUD FLAGS TRIGGERED:\<newline>- Rules: '' @ rules_triggered flags
     @ ''\<newline>- Fraud Score: '' @ out_of_100 (fraud_score flags)
     @ ''\<newline>- Explanation: '' @ explanation flags"

text \<open>\<open>provider.get(key, default)\<close> on the summary dict: the default when it is empty.\<close>

definition provider_section :: "provider_row option \<Rightarrow> string" where
  "provider_section provider =
     ''PROVIDER CONTEXT:\<newline>- Total claims submitted: ''
     @ (case provider of None \<Rightarrow> ''N/A'' | Some p \<Rightarrow> str_int (prov_total_claims p))
     @ ''\<newline>- Average claim amount: ''
     @ usd (case provider of None \<Rightarrow> 0 | Some p \<Rightarrow> avg_claim_amount p)
     @ ''\<newline>- Total billed: ''
     @ usd (case provider of None \<Rightarrow> 0 | Some p \<Rightarrow> total_billed p)
     @ ''\<newline>- Previous fraud cases: ''
     @ str_int (case provider of None \<Rightarrow> 0 | Some p \<Rightarrow> prov_fraud_claims p)"

definition patient_section :: "patient_row option \<Rightarrow> string" where
  "patient_section patient =
     ''PATIENT CONTEXT:\<newline>- Total claims: ''
     @ (case patient of None \<Rightarrow> ''N/A'' | Some p \<Rightarrow> str_int (pat_total_claims p))
     @ ''\<newline>- Total spent: ''
     @ usd (case patient of None \<Rightarrow> 0 | Some p \<Rightarrow> total_spent p)
     @ ''\<newline>- Previous fraud cases: ''
     @ str_int (case patient of None \<Rightarrow> 0 | Some p \<Rightarrow> pat_fraud_claims p)"

definition zscore_section :: "claim_row \<Rightarrow> string" where
  "zscore_section claim =
     ''CLAIM Z-SCORE: ''
     @ format_2f False (case amount_zscore claim of None \<Rightarrow> 0 | Some z \<Rightarrow> z)
     @ '' (higher = more unusual for specialty)''"

definition investigation_format :: string where
  "investigation_format =
     ''Based on this information, provide a concise fraud investigation report in the following format:\<newline>\<newline>FRAUD LIKELIHOOD: [1-10 score]\<newline>KEY RED FLAGS: [2-3 specific concerns]\<newline>INVESTIGATION PRIORITY: [Low/Medium/High/Critical]\<newline>RECOMMENDATION: [Approve/Deny/Request More Info/Escalate]\<newline>\<newline>Keep your response concise and focus on the most important fraud indicators.''"

text \<open>
  \<open>fraud_flags\<close> is what \<open>_get_fraud_flags\<close> returned: \<open>None\<close> when the claim has
  no flag row, and then \<open>fraud_flags['rules_triggered']\<close> raises TypeError.
\<close>

definition build_investigation_prompt ::
  "claim_row \<Rightarrow> provider_context \<Rightarrow> patient_context \<Rightarrow> flag_row option \<Rightarrow> error + string" where
  "build_investigation_prompt claim provider_ctx patient_ctx fraud_flags' =
     (case fraud_flags' of
        None \<Rightarrow> Inl TypeError
      | Some flags \<Rightarrow>
          Inr (''You are an expert fraud investigator analyzing an insurance claim flagged as potentially fraudulent.\<newline>\<newline>''
               @ claim_details_section claim @ ''\<newline>\<newline>''
               @ fraud_flags_section flags @ ''\<newline>\<newline>''
               @ provider_section (prov_summary provider_ctx) @ ''\<newline>\<newline>''
               @ patient_section (pat_summary patient_ctx) @ ''\<newline>\<newline>''
               @ zscore_section claim @ ''\<newline>\<newline>''
               @ investigation_format))"

subsection \<open>\<open>ExplanationAgent._build_explanation_prompt\<close>\<close>

definition explanation_instructions :: string where
  \<open>explanation_instructions =
     ''Generate a clear, concise explanation (2-3 sentences) that:\<newline>1. States WHY this claim is suspicious\<newline>2. Highlights the KEY red flag\<newline>3. Is understandable to someone without technical knowledge\<newline>\<newline>Do not use jargon like "Z-score" or "statistical outlier". Use plain language like "unusually high amount" or "multiple claims in short time".\<newline>\<newline>Example format:\<newline>"This claim is flagged as suspicious because [main reason]. Specifically, [key red flag]. This pattern is commonly associated with fraudulent billing."\<newline>\<newline>Your explanation:''\<close>

text \<open>
  \<open>claim\<close> is what \<open>_get_claim_details\<close> returned, \<open>None\<close> when there is no claim
  row; the optional \<open>investigation\<close> argument is never read. \<open>fraud_info\<close> is a row:
  \<open>explain_fraud_case\<close> returns before the call when it is \<open>None\<close>.
\<close>

definition build_explanation_prompt :: "claim_row option \<Rightarrow> flag_row \<Rightarrow> error + string" where
  "build_explanation_prompt claim' fraud_info =
     (case claim' of
        None \<Rightarrow> Inl TypeError
      | Some claim \<Rightarrow>
          Inr (''You are explaining a fraud case to a non-technical insurance adjuster. \<newline>\<newline>CLAIM INFORMATION:\<newline>- Claim ID: ''
               @ claim_id claim
               @ ''\<newline>- Amount: '' @ usd (claim_amount claim)
               @ ''\<newline>- Provider: '' @ provider_specialty claim
               @ ''\<newline>- Procedure: '' @ procedure_code claim
               @ ''\<newline>- Diagnosis: '' @ diagnosis_code claim
               @ ''\<newline>\<newline>FRAUD DETECTION RESULTS:\<newline>- Fraud Score: ''
               @ out_of_100 (fraud_score fraud_info)
               @ ''\<newline>- Rules Triggered: '' @ rules_triggered fraud_info
               @ ''\<newline>- Technical Explanation: '' @ explanation fraud_info
               @ ''\<newline>\<newline>'' @ explanation_instructions))"

section \<open>The completion client\<close>

text \<open>
  A request is what \<open>chat.completions.create\<close> receives. The backend is outside the
  program: its reply may depend on the request and on everything sent before, and is
  either an exception or the contents of the returned choices (a content may be
  \<open>None\<close>). The state threaded through the agents is the list of requests sent so far.
\<close>

record request =
  model :: string
  messages :: "(string \<times> string) list"
  temperature :: rat

record llm_client =
  default_model :: string
  backend :: "request list \<Rightarrow> request \<Rightarrow> error + string option list"

text \<open>\<open>LLMClient.chat(messages, temperature=0.7)\<close>; \<open>None\<close> is the omitted argument.\<close>

definition chat ::
  "llm_client \<Rightarrow> (string \<times> string) list \<Rightarrow> rat option \<Rightarrow> request list
     \<Rightarrow> (error + string option) \<times> request list" where
  "chat llm msgs temperature' sent =
     (let req = \<lparr>model = default_model llm, messages = msgs,
                 temperature = (case temperature' of None \<Rightarrow> 7 / 10 | Some t \<Rightarrow> t)\<rparr>
      in (case backend llm sent req of
            Inl e \<Rightarrow> Inl e
          | Inr [] \<Rightarrow> Inl IndexError
          | Inr (content # _) \<Rightarrow> Inr content,
          sent @ [req]))"

definition analysis_prompt :: "string \<Rightarrow> string \<Rightarrow> string" where
  "analysis_prompt claim_data context =
     ''You are a fraud detection expert. Analyze this claim:\<newline>        \<newline>Claim Data: ''
     @ claim_data
     @ ''\<newline>Context: '' @ context
     @ ''\<newline>\<newline>Provide:\<newline>1. Fraud likelihood score (1-10)\<newline>2. Key red flags\<newline>3. Investigation priority (Low/Medium/High)\<newline>''"

definition analyze_fraud ::
  "llm_client \<Rightarrow> string \<Rightarrow> string \<Rightarrow> request list \<Rightarrow> (error + string option) \<times> request list" where
  "analyze_fraud llm claim_data context sent =
     chat llm [(''user'', analysis_prompt claim_data context)] (Some (3 / 10)) sent"

section \<open>The agents\<close>

text \<open>A returned dict is an association list in the order of the literal.\<close>

type_synonym pydict = "(string \<times> pyval) list"

definition opt_str :: "string option \<Rightarrow> pyval" where
  "opt_str s = (case s of None \<Rightarrow> PNone | Some t \<Rightarrow> PStr t)"

subsection \<open>\<open>InvestigationAgent\<close>\<close>

definition investigate_claim ::
  "db \<Rightarrow> llm_client \<Rightarrow> string \<Rightarrow> request list \<Rightarrow> (error + pydict) \<times> request list" where
  "investigate_claim d llm claim_id' sent =
     (case get_claim_details d claim_id' of
        Inl e \<Rightarrow> (Inl e, sent)
      | Inr None \<Rightarrow> (Inr [(''error'', PStr (''Claim '' @ claim_id' @ '' not found''))], sent)
      | Inr (Some claim) \<Rightarrow>
     (case get_provider_context d (provider_id claim) of
        Inl e \<Rightarrow> (Inl e, sent)
      | Inr provider_context \<Rightarrow>
     (case get_patient_context d (patient_id claim) of
        Inl e \<Rightarrow> (Inl e, sent)
      | Inr patient_context \<Rightarrow>
     (case get_fraud_flags d claim_id' of
        Inl e \<Rightarrow> (Inl e, sent)
      | Inr fraud_flags' \<Rightarrow>
     (case build_investigation_prompt claim provider_context patient_context fraud_flags' of
        Inl e \<Rightarrow> (Inl e, sent)
      | Inr prompt \<Rightarrow>
     (case analyze_fraud llm prompt '''' sent of
        (Inl e, sent') \<Rightarrow> (Inl e, sent')
      | (Inr analysis, sent') \<Rightarrow>
          (Inr [(''claim_id'', PStr claim_id'),
                (''analysis'', opt_str analysis),
                (''claim_amount'', PNum (claim_amount claim)),
                (''provider'', PStr (provider_id claim)),
                (''specialty'', PStr (provider_specialty claim))],
           sent')))))))"




subsection \<open>\<open>ExplanationAgent\<close>\<close>

definition explain_fraud_case ::
  "db \<Rightarrow> llm_client \<Rightarrow> string \<Rightarrow> request list \<Rightarrow> (error + string option) \<times> request list" where
  "explain_fraud_case d llm claim_id' sent =
     (case get_fraud_info d claim_id' of
        Inl e \<Rightarrow> (Inl e, sent)
      | Inr None \<Rightarrow> (Inr (Some (''No fraud information found for claim '' @ claim_id')), sent)
      | Inr (Some fraud_info) \<Rightarrow>
     (case get_claim_details d claim_id' of
        Inl e \<Rightarrow> (Inl e, sent)
      | Inr claim \<Rightarrow>
     (case build_explanation_prompt claim fraud_info of
        Inl e \<Rightarrow> (Inl e, sent)
      | Inr prompt \<Rightarrow> chat llm [(''user'', prompt)] (Some (7 / 10)) sent)))"

fun generate_report ::
  "db \<Rightarrow> llm_client \<Rightarrow> string list \<Rightarrow> pydict list \<Rightarrow> request list
     \<Rightarrow> (error + pydict list) \<times> request list" where
  "generate_report d llm [] report sent = (Inr report, sent)"
| "generate_report d llm (claim_id' # rest) report sent =
     (case explain_fraud_case d llm claim_id' sent of
        (Inl e, sent') \<Rightarrow> (Inl e, sent')
      | (Inr explanation', sent') \<Rightarrow>
          generate_report d llm rest
            (report @ [[(''claim_id'', PStr claim_id'), (''explanation'', opt_str explanation')]])
            sent')"

definition generate_fraud_report ::
  "db \<Rightarrow> llm_client \<Rightarrow> string list \<Rightarrow> request list \<Rightarrow> (error + pydict list) \<times> request list" where
  "generate_fraud_report d llm claim_ids sent = generate_report d llm claim_ids [] sent"

section \<open>Properties in the words of the specification\<close>

text \<open>
  ``Two fixed decimals and grouping separators'': an optional minus sign, groups of
  digits separated by commas where every group but the leftmost has three digits and the
  leftmost has one to three, a point, two digits. The recogniser reads the text from its
  right end.
\<close>

definition is_digit :: "char \<Rightarrow> bool" where
  "is_digit c = (c \<in> set ''0123456789'')"

fun groups_ok :: "string \<Rightarrow> bool" where
  "groups_ok (a # b # c # d # rest) =
     (is_digit a \<and> is_digit b \<and> is_digit c \<and> d = CHR '','' \<and> groups_ok rest)"
| "groups_ok xs = (xs \<noteq> [] \<and> list_all is_digit xs)"

fun two_decimals_rev :: "string \<Rightarrow> bool" where
  "two_decimals_rev (d2 # d1 # p # ip) = (is_digit d2 \<and> is_digit d1 \<and> p = CHR ''.'' \<and> groups_ok ip)"
| "two_decimals_rev _ = False"

definition currency_shape :: "string \<Rightarrow> bool" where
  "currency_shape s =
     (two_decimals_rev (rev s) \<or> (s \<noteq> [] \<and> hd s = CHR ''-'' \<and> two_decimals_rev (rev (tl s))))"



section \<open>Example data\<close>

text \<open>
  The scenario of the specification: claim C100, amount 15000.00, Cardiology, score 85,
  rules \<open>high_amount,duplicate_billing\<close>.
\<close>

definition claim_C100 :: claim_row where
  "claim_C100 = \<lparr>claim_id = ''C100'', claim_amount = 15000, claim_date = ''2024-03-01'',
     provider_id = ''P7'', patient_id = ''M3'', provider_specialty = ''Cardiology'',
     procedure_code = ''93000'', diagnosis_code = ''I10'', status = ''Pending'',
     is_fraud = 1, amount_zscore = Some (7 / 2)\<rparr>"

definition flag_C100 :: flag_row where
  "flag_C100 = \<lparr>flag_claim_id = ''C100'', fraud_detected = 1, fraud_score = 85,
     rules_triggered = ''high_amount,duplicate_billing'',
     explanation = ''Amount far above specialty mean''\<rparr>"

definition provider_P7 :: provider_row where
  "provider_P7 = \<lparr>prov_provider_id = ''P7'', prov_total_claims = 412, avg_claim_amount = 2310 + 1 / 2,
     total_billed = 951926, prov_fraud_claims = 6\<rparr>"

definition patient_M3 :: patient_row where
  "patient_M3 = \<lparr>pat_patient_id = ''M3'', pat_total_claims = 9, total_spent = 31250,
     pat_fraud_claims = 0\<rparr>"

text \<open>
  \<open>stored\<close> is a data source with the given tables and no index on a sort column, so
  that rows with equal sort keys come out in scan order. The only altered query texts the
  examples submit carry the key \<open>obrien\<close> (O, apostrophe, Brien): the apostrophe closes
  the literal and leaves \<open>Brien'\<close> behind it, which the engine rejects.
\<close>

definition stored ::
  "claim_row list \<Rightarrow> provider_row list \<Rightarrow> patient_row list \<Rightarrow> flag_row list \<Rightarrow> db" where
  "stored cs ps qs fs =
     \<lparr>claims = cs, providers = ps, patients = qs, fraud_flags = fs,
      claims_tie = (\<lambda>c. 0), flags_tie = (\<lambda>f. 0),
      altered_claims = (\<lambda>query. Inl DatabaseError),
      altered_providers = (\<lambda>query. Inl DatabaseError),
      altered_patients = (\<lambda>query. Inl DatabaseError),
      altered_fraud_flags = (\<lambda>query. Inl DatabaseError),
      altered_recent = (\<lambda>query. Inl DatabaseError)\<rparr>"

definition obrien :: string where
  "obrien = ''O'' @ [quote] @ ''Brien''"

text \<open>
  \<open>db_unflagged\<close>: the claim, its provider and its patient, and no flag row.
  \<open>db_no_entities\<close>: the claim and its flag, and neither provider nor patient row.
  \<open>db_quoted_provider\<close>: the claim billed by provider \<open>obrien\<close>, its flag and its
  patient, and no provider row.
  \<open>db_tie\<close>: the unflagged row W with score 99, then the flagged rows Y and X with
  score 90, stored in that order, and Z with 70.
  \<open>db_tie_indexed\<close>: the same tables under a schema through whose index the engine
  returns X before Y.
  \<open>db_two\<close>: two flagged claims with all their rows.
\<close>

definition db_unflagged :: db where
  "db_unflagged = stored [claim_C100] [provider_P7] [patient_M3] []"

definition db_no_entities :: db where
  "db_no_entities = stored [claim_C100] [] [] [flag_C100]"

definition db_quoted_provider :: db where
  "db_quoted_provider = stored [claim_C100\<lparr>provider_id := obrien\<rparr>] [] [patient_M3] [flag_C100]"

definition db_tie :: db where
  "db_tie =
     stored [claim_C100\<lparr>claim_id := ''Y''\<rparr>, claim_C100\<lparr>claim_id := ''X''\<rparr>,
             claim_C100\<lparr>claim_id := ''Z''\<rparr>, claim_C100\<lparr>claim_id := ''W''\<rparr>]
       [provider_P7] [patient_M3]
       [flag_C100\<lparr>flag_claim_id := ''W'', fraud_detected := 0, fraud_score := 99\<rparr>,
        flag_C100\<lparr>flag_claim_id := ''Y'', fraud_score := 90\<rparr>,
        flag_C100\<lparr>flag_claim_id := ''X'', fraud_score := 90\<rparr>,
        flag_C100\<lparr>flag_claim_id := ''Z'', fraud_score := 70\<rparr>]"

definition db_tie_indexed :: db where
  "db_tie_indexed = db_tie\<lparr>flags_tie := (\<lambda>f. if flag_claim_id f = ''X'' then 0 else 1)\<rparr>"

definition db_two :: db where
  "db_two =
     stored [claim_C100, claim_C100\<lparr>claim_id := ''C101''\<rparr>] [provider_P7] [patient_M3]
       [flag_C100, flag_C100\<lparr>flag_claim_id := ''C101''\<rparr>]"

text \<open>
  \<open>canned_llm\<close> answers every request with the same text; \<open>flaky_llm\<close> answers
  the first request and raises on every later one.
\<close>

definition canned_llm :: llm_client where
  "canned_llm = \<lparr>default_model = ''openai/gpt-3.5-turbo'',
     backend = (\<lambda>sent req. Inr [Some ''FRAUD LIKELIHOOD: 9''])\<rparr>"

definition flaky_llm :: llm_client where
  "flaky_llm = \<lparr>default_model = ''openai/gpt-3.5-turbo'',
     backend = (\<lambda>sent req. if sent = [] then Inr [Some ''The amount is unusually high.'']
                             else Inl BackendError)\<rparr>"

section \<open>Evaluation and containment lemmas\<close>

lemmas lookup_defs = get_claim_details_def get_fraud_flags_def get_fraud_info_def
  get_provider_context_def get_patient_context_def select_where_def recent_claims_def
  plain_key_def quote_def first_row_def



lemmas example_defs = claim_C100_def flag_C100_def provider_P7_def patient_M3_def stored_def
  obrien_def db_unflagged_def db_no_entities_def db_quoted_provider_def db_tie_def
  db_tie_indexed_def db_two_def canned_llm_def flaky_llm_def

subsection \<open>Contiguous substrings of a concatenation\<close>

lemma sub_later: "sublist x b \<Longrightarrow> sublist x (a @ b)"
  by (metis sublist_append)

lemma sub_self: "sublist x (x @ b)"
  by simp

lemma sub_refl: "sublist x x"
  by simp

lemma sub_trans: "sublist x y \<Longrightarrow> sublist y z \<Longrightarrow> sublist x z"
  by (rule sublist_order.order_trans)

subsection \<open>Number formatting\<close>

lemma is_digit_digit: "is_digit (digit d)"
  unfolding is_digit_def digit_def by (rule nth_mem) simp

lemma digits_nonempty: "digits n \<noteq> []"
  by (subst digits.simps) simp

lemma digits_all_digit: "list_all is_digit (digits n)"
proof (induction n rule: digits.induct)
  case (1 n)
  show ?case
  proof (cases "n < 10")
    case True
    then show ?thesis by (subst digits.simps) (simp add: is_digit_digit)
  next
    case False
    with "1" show ?thesis by (subst digits.simps) (simp add: is_digit_digit)
  qed
qed

lemma groups_ok_group3: "xs \<noteq> [] \<Longrightarrow> list_all is_digit xs \<Longrightarrow> groups_ok (group3 xs)"
  by (induction xs rule: group3.induct) auto

lemma groups_ok_thousands_digits: "groups_ok (rev (thousands (digits n)))"
proof -
  have "list_all is_digit (rev (digits n))"
    using digits_all_digit [of n] by (simp add: list_all_iff)
  then show ?thesis
    unfolding thousands_def rev_rev_ident
    by (intro groups_ok_group3) (simp_all add: digits_nonempty)
qed

lemma currency_shape_format_2f: "currency_shape (format_2f True x)"
  unfolding currency_shape_def format_2f_def Let_def
  by (simp add: groups_ok_thousands_digits is_digit_digit)

lemma format_15000: "format_2f True 15000 = ''15,000.00''"
  by (simp add: format_2f_def round_half_even_def digits.simps digit_def thousands_def Let_def)

lemma out_of_100_85: "out_of_100 85 = ''85/100''"
  by (simp add: out_of_100_def str_int_def digits.simps digit_def)

subsection \<open>Sections of the investigation prompt\<close>

lemma headers_in_format:
  "sublist ''FRAUD LIKELIHOOD:'' investigation_format"
  "sublist ''KEY RED FLAGS:'' investigation_format"
  "sublist ''INVESTIGATION PRIORITY:'' investigation_format"
  "sublist ''RECOMMENDATION:'' investigation_format"
  unfolding investigation_format_def by code_simp+


lemma usd_in_claim_details: "sublist (usd (claim_amount c)) (claim_details_section c)"
  unfolding claim_details_section_def by (fast intro: sub_later sub_self)

lemma score_in_flags: "sublist (out_of_100 (fraud_score f)) (fraud_flags_section f)"
  unfolding fraud_flags_section_def by (fast intro: sub_later sub_self)

lemma rules_in_flags: "sublist (rules_triggered f) (fraud_flags_section f)"
  unfolding fraud_flags_section_def by (fast intro: sub_later sub_self)

lemma investigation_prompt_sections:
  "\<exists>p. build_investigation_prompt c pc qc (Some f) = Inr p
     \<and> sublist (claim_details_section c) p
     \<and> sublist (fraud_flags_section f) p
     \<and> sublist (provider_section (prov_summary pc)) p
     \<and> sublist (patient_section (pat_summary qc)) p
     \<and> sublist investigation_format p"
  unfolding build_investigation_prompt_def option.case
  apply (rule exI, intro conjI, rule refl)
  apply (fast intro: sub_later sub_self sub_refl)+
  done



lemma jargon_in_instructions:
  \<open>sublist ''Do not use jargon like "Z-score" or "statistical outlier".'' explanation_instructions\<close>
  \<open>sublist ''Z-score'' explanation_instructions\<close>
  \<open>sublist ''outlier'' explanation_instructions\<close>
  unfolding explanation_instructions_def by code_simp+



subsection \<open>Ordering and limiting rows\<close>







subsection \<open>The loops of the two agents\<close>


lemma investigate_claim_result_shape:
  assumes "investigate_claim d llm cid sent = (Inr r, sent')"
  shows "(get_claim_details d cid = Inr None
           \<and> r = [(''error'', PStr (''Claim '' @ cid @ '' not found''))]
           \<and> map_of r ''claim_id'' = None)
         \<or> ((\<exists>c. get_claim_details d cid = Inr (Some c))
           \<and> map_of r ''claim_id'' = Some (PStr cid))"
  using assms unfolding investigate_claim_def
  by (auto split: sum.splits option.splits prod.splits)





lemma generate_report_ids:
  "generate_report d llm ids acc s = (Inr rs, s') \<Longrightarrow>
   \<exists>rs'. rs = acc @ rs' \<and> map (\<lambda>e. map_of e ''claim_id'') rs' = map (\<lambda>i. Some (PStr i)) ids"
proof (induction ids arbitrary: acc s)
  case Nil
  then show ?case by simp
next
  case (Cons i ids)
  from Cons.prems obtain e s1 where
    rest: "generate_report d llm ids
             (acc @ [[(''claim_id'', PStr i), (''explanation'', opt_str e)]]) s1 = (Inr rs, s')"
    by (auto split: sum.splits prod.splits)
  from Cons.IH [OF rest] obtain rs' where
    "rs = (acc @ [[(''claim_id'', PStr i), (''explanation'', opt_str e)]]) @ rs'"
    "map (\<lambda>e. map_of e ''claim_id'') rs' = map (\<lambda>i. Some (PStr i)) ids"
    by blast
  then show ?case by simp
qed

lemma first_row_Some:
  "x \<in> set xs \<Longrightarrow> P x \<Longrightarrow> \<exists>y. first_row (filter P xs) = Some y"
proof -
  assume "x \<in> set xs" and "P x"
  then have "filter P xs \<noteq> []"
    by (auto simp: filter_empty_conv)
  then show ?thesis
    by (cases "filter P xs") (simp_all add: first_row_def)
qed

lemma explain_fraud_case_returns:
  assumes "plain_key i"
    and "(\<forall>f \<in> set (fraud_flags d). flag_claim_id f \<noteq> i)
         \<or> ((\<exists>f \<in> set (fraud_flags d). flag_claim_id f = i)
             \<and> (\<exists>c \<in> set (claims d). claim_id c = i))"
    and "\<forall>s req. \<exists>reply others. backend llm s req = Inr (reply # others)"
  shows "\<exists>e s'. explain_fraud_case d llm i s = (Inr e, s')
           \<and> ((\<forall>f \<in> set (fraud_flags d). flag_claim_id f \<noteq> i)
                \<longrightarrow> e = Some (''No fraud information found for claim '' @ i))"
proof -
  have fi: "get_fraud_info d i
      = Inr (first_row (filter (\<lambda>f. flag_claim_id f = i) (fraud_flags d)))"
    using assms(1) by (simp add: get_fraud_info_def select_where_def)
  have cd: "get_claim_details d i = Inr (first_row (filter (\<lambda>c. claim_id c = i) (claims d)))"
    using assms(1) by (simp add: get_claim_details_def select_where_def)
  show ?thesis
  proof (cases "\<forall>f \<in> set (fraud_flags d). flag_claim_id f \<noteq> i")
    case True
    then have "filter (\<lambda>f. flag_claim_id f = i) (fraud_flags d) = []"
      by (simp add: filter_empty_conv)
    then show ?thesis
      by (simp add: explain_fraud_case_def fi first_row_def)
  next
    case False
    with assms(2) obtain f0 c0 where "f0 \<in> set (fraud_flags d)" "flag_claim_id f0 = i"
      "c0 \<in> set (claims d)" "claim_id c0 = i"
      by blast
    then obtain f c where f: "first_row (filter (\<lambda>f. flag_claim_id f = i) (fraud_flags d)) = Some f"
      and c: "first_row (filter (\<lambda>c. claim_id c = i) (claims d)) = Some c"
      using first_row_Some [of f0 "fraud_flags d" "\<lambda>f. flag_claim_id f = i"]
        first_row_Some [of c0 "claims d" "\<lambda>c. claim_id c = i"]
      by blast
    obtain p where p: "build_explanation_prompt (Some c) f = Inr p"
      by (simp add: build_explanation_prompt_def)
    obtain reply others where
      "backend llm s \<lparr>model = default_model llm, messages = [(''user'', p)],
                       temperature = 7 / 10\<rparr> = Inr (reply # others)"
      using assms(3) by blast
    then have "\<exists>e s'. explain_fraud_case d llm i s = (Inr e, s')"
      using f c p by (simp add: explain_fraud_case_def fi cd chat_def)
    with False show ?thesis by blast
  qed
qed

lemma generate_report_returns:
  assumes "\<forall>i \<in> set ids. plain_key i
             \<and> ((\<forall>f \<in> set (fraud_flags d). flag_claim_id f \<noteq> i)
                \<or> ((\<exists>f \<in> set (fraud_flags d). flag_claim_id f = i)
                    \<and> (\<exists>c \<in> set (claims d). claim_id c = i)))"
    and "\<forall>s req. \<exists>reply others. backend llm s req = Inr (reply # others)"
  shows "\<exists>rs s'. generate_report d llm ids acc s = (Inr (acc @ rs), s')
           \<and> list_all2 (\<lambda>i r. map_of r ''claim_id'' = Some (PStr i)
                \<and> ((\<forall>f \<in> set (fraud_flags d). flag_claim_id f \<noteq> i) \<longrightarrow>
                     r = [(''claim_id'', PStr i),
                          (''explanation'', PStr (''No fraud information found for claim '' @ i))]))
               ids rs"
  using assms(1)
proof (induction ids arbitrary: acc s)
  case Nil
  then show ?case by simp
next
  case (Cons i ids)
  have "plain_key i"
    and "(\<forall>f \<in> set (fraud_flags d). flag_claim_id f \<noteq> i)
         \<or> ((\<exists>f \<in> set (fraud_flags d). flag_claim_id f = i)
             \<and> (\<exists>c \<in> set (claims d). claim_id c = i))"
    using Cons.prems by simp_all
  from explain_fraud_case_returns [OF this assms(2), of s] obtain e s1 where
    e: "explain_fraud_case d llm i s = (Inr e, s1)"
    and msg: "(\<forall>f \<in> set (fraud_flags d). flag_claim_id f \<noteq> i)
                \<longrightarrow> e = Some (''No fraud information found for claim '' @ i)"
    by blast
  let ?entry = "[(''claim_id'', PStr i), (''explanation'', opt_str e)]"
  have "\<forall>i \<in> set ids. plain_key i
             \<and> ((\<forall>f \<in> set (fraud_flags d). flag_claim_id f \<noteq> i)
                \<or> ((\<exists>f \<in> set (fraud_flags d). flag_claim_id f = i)
                    \<and> (\<exists>c \<in> set (claims d). claim_id c = i)))"
    using Cons.prems by simp
  from Cons.IH [OF this, of "acc @ [?entry]" s1] obtain rs s' where
    rest: "generate_report d llm ids (acc @ [?entry]) s1 = (Inr ((acc @ [?entry]) @ rs), s')"
    and all: "list_all2 (\<lambda>i r. map_of r ''claim_id'' = Some (PStr i)
                \<and> ((\<forall>f \<in> set (fraud_flags d). flag_claim_id f \<noteq> i) \<longrightarrow>
                     r = [(''claim_id'', PStr i),
                          (''explanation'', PStr (''No fraud information found for claim '' @ i))]))
               ids rs"
    by blast
  have "generate_report d llm (i # ids) acc s = (Inr (acc @ (?entry # rs)), s')"
    using e rest by simp
  moreover have "list_all2 (\<lambda>i r. map_of r ''claim_id'' = Some (PStr i)
                \<and> ((\<forall>f \<in> set (fraud_flags d). flag_claim_id f \<noteq> i) \<longrightarrow>
                     r = [(''claim_id'', PStr i),
                          (''explanation'', PStr (''No fraud information found for claim '' @ i))]))
               (i # ids) (?entry # rs)"
    using all msg by (simp add: opt_str_def)
  ultimately show ?case by blast
qed

section \<open>The claims\<close>

subsection \<open>Investigating a claim that has no fraud flag\<close>

text \<open>
  C1 says that a claim with a claim row and no flag row is investigated successfully.
  The code does not do that: \<open>_get_fraud_flags\<close> returns \<open>None\<close>, nothing tests
  it, and the prompt builder subscripts it. Whenever the claim row exists, its provider
  and patient ids are free of quotes and no flag row exists, \<open>investigate_claim\<close>
  raises TypeError before any request is sent.
\<close>

theorem investigate_unflagged_claim_raises:
  assumes "get_claim_details d cid = Inr (Some claim)"
    and "plain_key (provider_id claim)" and "plain_key (patient_id claim)"
    and "get_fraud_flags d cid = Inr None"
  shows "investigate_claim d llm cid sent = (Inl TypeError, sent)"
  using assms
  by (simp add: investigate_claim_def get_provider_context_def get_patient_context_def
      select_where_def recent_claims_def build_investigation_prompt_def)

text \<open>
  The database that holds claim C100 with its provider and patient and no flag.
\<close>

theorem investigate_unflagged_claim_raises_witness:
  "get_claim_details db_unflagged ''C100'' = Inr (Some claim_C100)
   \<and> get_fraud_flags db_unflagged ''C100'' = Inr None
   \<and> investigate_claim db_unflagged canned_llm ''C100'' [] = (Inl TypeError, [])"
proof -
  have h1: "get_claim_details db_unflagged ''C100'' = Inr (Some claim_C100)"
    by (simp add: lookup_defs example_defs)
  have h2: "plain_key (provider_id claim_C100)" "plain_key (patient_id claim_C100)"
    by (simp_all add: plain_key_def quote_def claim_C100_def)
  have h3: "get_fraud_flags db_unflagged ''C100'' = Inr None"
    by (simp add: lookup_defs example_defs)
  from investigate_unflagged_claim_raises [OF h1 h2 h3, of canned_llm "[]"] h1 h3
  show ?thesis by simp
qed

subsection \<open>Ranking the flagged claims\<close>




subsection \<open>Missing provider or patient rows\<close>




subsection \<open>Jargon in the explanation prompt\<close>

text \<open>
  The explanation prompt for the scenario claim contains both \<open>outlier\<close> and
  \<open>Z-score\<close>.
\<close>

theorem explanation_prompt_names_jargon_example:
  \<open>sublist ''outlier'' (projr (build_explanation_prompt (Some claim_C100) flag_C100))
   \<and> sublist ''Z-score'' (projr (build_explanation_prompt (Some claim_C100) flag_C100))\<close>
  by (simp add: build_explanation_prompt_def claim_C100_def flag_C100_def usd_def out_of_100_def
      format_2f_def round_half_even_def digits.simps digit_def thousands_def Let_def str_int_def
      explanation_instructions_def sublist_Cons_right)

text \<open>
  C4, amended. The template forbids the jargon by naming it: for every claim row and
  flag row the prompt is built and contains the sentence
  \<open>Do not use jargon like "Z-score" or "statistical outlier".\<close>, hence the tokens
  \<open>Z-score\<close> and \<open>outlier\<close>.
\<close>

theorem explanation_prompt_names_jargon:
  \<open>\<exists>p. build_explanation_prompt (Some claim) fraud_info = Inr p
     \<and> sublist ''Do not use jargon like "Z-score" or "statistical outlier".'' p
     \<and> sublist ''Z-score'' p \<and> sublist ''outlier'' p\<close>
proof -
  have "\<exists>p. build_explanation_prompt (Some claim) fraud_info = Inr p
      \<and> sublist explanation_instructions p"
    unfolding build_explanation_prompt_def option.case
    apply (rule exI, intro conjI, rule refl)
    apply (fast intro: sub_later sub_self sub_refl)
    done
  then show ?thesis
    using jargon_in_instructions sub_trans by blast
qed

subsection \<open>The claim id carried by a report\<close>

text \<open>
  The dict returned for a claim that is not found has the single key \<open>error\<close>:
  the id appears in the message only.
\<close>

theorem not_found_report_has_no_claim_id_example:
  "fst (investigate_claim db_unflagged canned_llm ''NOPE'' [])
     = Inr [(''error'', PStr ''Claim NOPE not found'')]
   \<and> map_of (projr (fst (investigate_claim db_unflagged canned_llm ''NOPE'' []))) ''claim_id''
     = None"
  by (simp add: investigate_claim_def lookup_defs example_defs)

text \<open>
  C5, amended. A dict returned by \<open>investigate_claim\<close> is either the not-found
  dict, whose only key is \<open>error\<close> and whose message embeds the id, returned exactly
  when no claim row exists; or a report whose \<open>claim_id\<close> field is the id asked for.
  Every entry of a batch that \<open>generate_fraud_report\<close> returns has the
  \<open>claim_id\<close> field of its input id, in input order.
\<close>

theorem report_claim_id_field:
  "(investigate_claim d llm cid sent = (Inr r, sent') \<longrightarrow>
      (get_claim_details d cid = Inr None
         \<and> r = [(''error'', PStr (''Claim '' @ cid @ '' not found''))]
         \<and> map_of r ''claim_id'' = None)
      \<or> ((\<exists>c. get_claim_details d cid = Inr (Some c))
         \<and> map_of r ''claim_id'' = Some (PStr cid)))
   \<and> (generate_fraud_report d llm ids sent = (Inr report, sent'') \<longrightarrow>
        map (\<lambda>e. map_of e ''claim_id'') report = map (\<lambda>i. Some (PStr i)) ids)"
proof -
  have "map (\<lambda>e. map_of e ''claim_id'') report = map (\<lambda>i. Some (PStr i)) ids"
    if "generate_fraud_report d llm ids sent = (Inr report, sent'')"
    using generate_report_ids [of d llm ids "[]" sent report sent''] that
    by (simp add: generate_fraud_report_def)
  then show ?thesis
    using investigate_claim_result_shape by blast
qed

text \<open>
  Claim C100 investigated, and the batch over an unknown id and C100.
\<close>

theorem report_claim_id_field_witness:
  "map_of (projr (fst (investigate_claim db_no_entities canned_llm ''C100'' []))) ''claim_id''
     = Some (PStr ''C100'')
   \<and> map (\<lambda>e. map_of e ''claim_id'')
        (projr (fst (generate_fraud_report db_no_entities canned_llm [''NOPE'', ''C100''] [])))
     = [Some (PStr ''NOPE''), Some (PStr ''C100'')]"
proof -
  obtain r s where r: "investigate_claim db_no_entities canned_llm ''C100'' [] = (Inr r, s)"
    by (simp add: investigate_claim_def lookup_defs example_defs analyze_fraud_def chat_def
        build_investigation_prompt_def)
  have c: "get_claim_details db_no_entities ''C100'' \<noteq> Inr None"
    by (simp add: lookup_defs example_defs)
  obtain rep s' where
    g: "generate_fraud_report db_no_entities canned_llm [''NOPE'', ''C100''] [] = (Inr rep, s')"
    by (simp add: generate_fraud_report_def explain_fraud_case_def lookup_defs example_defs
        chat_def build_explanation_prompt_def)
  from report_claim_id_field [of db_no_entities canned_llm "''C100''" "[]" r s
      "[''NOPE'', ''C100'']" rep s'] r c g
  show ?thesis by simp
qed

subsection \<open>The batch of explanations\<close>

text \<open>
  Nothing in the loop catches an exception. With a backend that answers once and then
  raises, the explanation of C100 alone succeeds, and the batch over C100 and C101 ends in
  the exception: no report is returned, the one for C100 included. And a batch whose
  first id holds an apostrophe ends in the lookup's exception, although that id has no
  flag row and the backend answers.
\<close>

theorem batch_aborts_on_backend_failure_example:
  "fst (explain_fraud_case db_two flaky_llm ''C100'' [])
     = Inr (Some ''The amount is unusually high.'')
   \<and> fst (generate_fraud_report db_two flaky_llm [''C100'', ''C101''] []) = Inl BackendError
   \<and> fst (generate_fraud_report db_no_entities canned_llm [obrien, ''C100''] [])
     = Inl DatabaseError"
  by (simp add: generate_fraud_report_def explain_fraud_case_def lookup_defs example_defs
      chat_def build_explanation_prompt_def)

text \<open>
  C6, amended. When every id of the input contains no single quote and no NUL and
  either has no flag row or has both a flag row and a claim row, and the backend answers
  every request, \<open>generate_fraud_report\<close> returns one entry per input id, in input
  order, each carrying its id; the entry of an id without a flag row holds the message
  \<open>No fraud information found for claim\<close> followed by the id.
\<close>

theorem batch_report_order:
  assumes "\<forall>i \<in> set claim_ids. plain_key i
             \<and> ((\<forall>f \<in> set (fraud_flags d). flag_claim_id f \<noteq> i)
                \<or> ((\<exists>f \<in> set (fraud_flags d). flag_claim_id f = i)
                    \<and> (\<exists>c \<in> set (claims d). claim_id c = i)))"
    and "\<forall>s req. \<exists>reply others. backend llm s req = Inr (reply # others)"
  shows "\<exists>report sent'. generate_fraud_report d llm claim_ids sent = (Inr report, sent')
      \<and> length report = length claim_ids
      \<and> (\<forall>k < length claim_ids.
            map_of (report ! k) ''claim_id'' = Some (PStr (claim_ids ! k))
            \<and> ((\<forall>f \<in> set (fraud_flags d). flag_claim_id f \<noteq> claim_ids ! k) \<longrightarrow>
                 report ! k = [(''claim_id'', PStr (claim_ids ! k)),
                               (''explanation'',
                                PStr (''No fraud information found for claim '' @ claim_ids ! k))]))"
proof -
  from generate_report_returns [OF assms, of "[]" sent] obtain rs s' where
    r: "generate_report d llm claim_ids [] sent = (Inr rs, s')"
    and all: "list_all2 (\<lambda>i r. map_of r ''claim_id'' = Some (PStr i)
                \<and> ((\<forall>f \<in> set (fraud_flags d). flag_claim_id f \<noteq> i) \<longrightarrow>
                     r = [(''claim_id'', PStr i),
                          (''explanation'', PStr (''No fraud information found for claim '' @ i))]))
               claim_ids rs"
    by auto
  from all have len: "length rs = length claim_ids"
    by (simp add: list_all2_lengthD)
  from all have "\<forall>k < length claim_ids.
            map_of (rs ! k) ''claim_id'' = Some (PStr (claim_ids ! k))
            \<and> ((\<forall>f \<in> set (fraud_flags d). flag_claim_id f \<noteq> claim_ids ! k) \<longrightarrow>
                 rs ! k = [(''claim_id'', PStr (claim_ids ! k)),
                               (''explanation'',
                                PStr (''No fraud information found for claim '' @ claim_ids ! k))])"
    by (simp add: list_all2_conv_all_nth)
  with r len show ?thesis
    by (simp add: generate_fraud_report_def)
qed

text \<open>The batch over the unknown id NOPE and C100.\<close>

theorem batch_report_order_witness:
  "fst (generate_fraud_report db_no_entities canned_llm [''NOPE'', ''C100''] [])
     = Inr [[(''claim_id'', PStr ''NOPE''),
             (''explanation'', PStr ''No fraud information found for claim NOPE'')],
            [(''claim_id'', PStr ''C100''), (''explanation'', PStr ''FRAUD LIKELIHOOD: 9'')]]"
proof -
  have h1: "\<forall>i \<in> set [''NOPE'', ''C100'']. plain_key i
      \<and> ((\<forall>f \<in> set (fraud_flags db_no_entities). flag_claim_id f \<noteq> i)
         \<or> ((\<exists>f \<in> set (fraud_flags db_no_entities). flag_claim_id f = i)
             \<and> (\<exists>c \<in> set (claims db_no_entities). claim_id c = i)))"
    by (simp add: plain_key_def quote_def example_defs)
  have h2: "\<forall>s req. \<exists>reply others. backend canned_llm s req = Inr (reply # others)"
    by (simp add: canned_llm_def)
  from batch_report_order [OF h1 h2, of "[]"] obtain report sent' where
    "generate_fraud_report db_no_entities canned_llm [''NOPE'', ''C100''] [] = (Inr report, sent')"
    "length report = 2"
    by auto
  then show ?thesis
    by (simp add: generate_fraud_report_def explain_fraud_case_def lookup_defs example_defs
        chat_def build_explanation_prompt_def opt_str_def)
qed

subsection \<open>Contents of the investigation prompt\<close>

text \<open>
  C7 asks for a prompt with the four headers, the amount and the score for every valid
  bundle, and a bundle may hold no flag. On such a bundle the builder returns nothing:
  whatever the claim row and the contexts, it raises TypeError at
  \<open>fraud_flags['rules_triggered']\<close>. This is the missing guard of the first
  subsection, met here at the builder.
\<close>

theorem investigation_prompt_without_flag_raises:
  "build_investigation_prompt claim provider_ctx patient_ctx None = Inl TypeError
   \<and> get_claim_details db_unflagged ''C100'' = Inr (Some claim_C100)
   \<and> get_fraud_flags db_unflagged ''C100'' = Inr None"
  by (simp add: build_investigation_prompt_def lookup_defs example_defs)

text \<open>
  With a flag row the builder returns a prompt, whatever the rows and the contexts. The
  prompt holds the four headers of the requested format, the amount after a dollar sign
  with two decimals and grouping, the score followed by \<open>/100\<close> and the text of the
  triggered rules; for the amount 15000, the score 85 and the rules
  \<open>high_amount,duplicate_billing\<close> it holds \<open>$15,000.00\<close>, \<open>85/100\<close> and both
  rule names.
\<close>

theorem investigation_prompt_contents:
  "\<exists>p. build_investigation_prompt claim provider_ctx patient_ctx (Some flags) = Inr p
     \<and> sublist ''FRAUD LIKELIHOOD:'' p \<and> sublist ''KEY RED FLAGS:'' p
     \<and> sublist ''INVESTIGATION PRIORITY:'' p \<and> sublist ''RECOMMENDATION:'' p
     \<and> sublist (''$'' @ format_2f True (claim_amount claim)) p
     \<and> (\<forall>x. currency_shape (format_2f True x))
     \<and> sublist (str_int (fraud_score flags) @ ''/100'') p
     \<and> sublist (rules_triggered flags) p
     \<and> (claim_amount claim = 15000 \<and> fraud_score flags = 85
          \<and> rules_triggered flags = ''high_amount,duplicate_billing''
         \<longrightarrow> sublist ''$15,000.00'' p \<and> sublist ''85/100'' p
             \<and> sublist ''high_amount'' p \<and> sublist ''duplicate_billing'' p)"
proof -
  obtain p where p: "build_investigation_prompt claim provider_ctx patient_ctx (Some flags) = Inr p"
    and c: "sublist (claim_details_section claim) p"
    and f: "sublist (fraud_flags_section flags) p"
    and g: "sublist investigation_format p"
    using investigation_prompt_sections by blast
  have amount: "sublist (''$'' @ format_2f True (claim_amount claim)) p"
    using sub_trans [OF usd_in_claim_details c] by (simp add: usd_def)
  have score: "sublist (str_int (fraud_score flags) @ ''/100'') p"
    using sub_trans [OF score_in_flags f] by (simp add: out_of_100_def)
  have rules: "sublist (rules_triggered flags) p"
    by (rule sub_trans [OF rules_in_flags f])
  have scenario: "sublist ''$15,000.00'' p \<and> sublist ''85/100'' p
      \<and> sublist ''high_amount'' p \<and> sublist ''duplicate_billing'' p"
    if a: "claim_amount claim = 15000" and s: "fraud_score flags = 85"
      and r: "rules_triggered flags = ''high_amount,duplicate_billing''"
  proof -
    have "sublist ''$15,000.00'' p"
      using amount by (simp add: a format_15000)
    moreover have "sublist ''85/100'' p"
      using score out_of_100_85 by (simp add: s out_of_100_def)
    moreover have "sublist ''high_amount'' (rules_triggered flags)"
      unfolding r by code_simp
    moreover have "sublist ''duplicate_billing'' (rules_triggered flags)"
      unfolding r by code_simp
    ultimately show ?thesis
      using rules sub_trans by blast
  qed
  show ?thesis
    using p amount score rules scenario headers_in_format [THEN sub_trans, OF g]
      currency_shape_format_2f
    by blast
qed

text \<open>
  The scenario claim with its provider and patient summaries.
\<close>

theorem investigation_prompt_contents_witness:
  "sublist ''$15,000.00''
     (projr (build_investigation_prompt claim_C100
        \<lparr>prov_summary = Some provider_P7, prov_recent_claims = []\<rparr>
        \<lparr>pat_summary = Some patient_M3, pat_recent_claims = []\<rparr> (Some flag_C100)))
   \<and> sublist ''85/100''
     (projr (build_investigation_prompt claim_C100
        \<lparr>prov_summary = Some provider_P7, prov_recent_claims = []\<rparr>
        \<lparr>pat_summary = Some patient_M3, pat_recent_claims = []\<rparr> (Some flag_C100)))
   \<and> sublist ''high_amount''
     (projr (build_investigation_prompt claim_C100
        \<lparr>prov_summary = Some provider_P7, prov_recent_claims = []\<rparr>
        \<lparr>pat_summary = Some patient_M3, pat_recent_claims = []\<rparr> (Some flag_C100)))
   \<and> sublist ''duplicate_billing''
     (projr (build_investigation_prompt claim_C100
        \<lparr>prov_summary = Some provider_P7, prov_recent_claims = []\<rparr>
        \<lparr>pat_summary = Some patient_M3, pat_recent_claims = []\<rparr> (Some flag_C100)))"
proof -
  have a: "claim_amount claim_C100 = 15000 \<and> fraud_score flag_C100 = 85
      \<and> rules_triggered flag_C100 = ''high_amount,duplicate_billing''"
    by (simp add: claim_C100_def flag_C100_def)
  from investigation_prompt_contents [of claim_C100
      "\<lparr>prov_summary = Some provider_P7, prov_recent_claims = []\<rparr>"
      "\<lparr>pat_summary = Some patient_M3, pat_recent_claims = []\<rparr>" flag_C100] a
  show ?thesis
    by (metis sum.sel(2))
qed

subsection \<open>Keys in the query text\<close>



subsection \<open>Sampling temperatures\<close>


subsection \<open>Two priority scales in one message\<close>



end
